theory Spec2Isabelle
  imports Main "HOL-Library.AList" "HOL-Library.Multiset"
begin

section \<open>JavaScript values and the operations the handlers use\<close>

text \<open>
  The handlers of \<^verbatim>\<open>src/server.js\<close> work on parsed JSON: request bodies, the documents
  of the job collection and the answers of the question source. A value is one of the
  JSON shapes, \<^verbatim>\<open>undefined\<close> (what reading a missing property gives), or a built-in
  function or object reached through the prototype chain. Numbers are the integers; an
  object is its list of own properties, the first binding of a name being the one that
  counts.
\<close>

datatype jsval =
    JUndefined
  | JNull
  | JBool bool
  | JNum int
  | JStr string
  | JArr "jsval list"
  | JObj "(string \<times> jsval) list"
  | JFun string

type_synonym obj = "(string \<times> jsval) list"

text \<open>
  What a thrown exception is: a \<^verbatim>\<open>TypeError\<close> of the language, a failed request to the
  question source, a value that Mongoose cannot cast to the type its schema declares,
  a store that does not answer. Every handler maps all of them to 500.
\<close>

datatype js_error = TypeError | RequestFailed | CastError | StoreError

text \<open>\<^verbatim>\<open>!v\<close> is \<open>\<not> truthy v\<close>.\<close>

fun truthy :: "jsval \<Rightarrow> bool" where
  "truthy JUndefined = False"
| "truthy JNull = False"
| "truthy (JBool b) = b"
| "truthy (JNum n) = (n \<noteq> 0)"
| "truthy (JStr s) = (s \<noteq> [])"
| "truthy (JArr xs) = True"
| "truthy (JObj kvs) = True"
| "truthy (JFun f) = True"

text \<open>\<^verbatim>\<open>a || b\<close>\<close>

definition js_or :: "jsval \<Rightarrow> jsval \<Rightarrow> jsval" where
  "js_or a b = (if truthy a then a else b)"

text \<open>
  The members every plain object inherits from \<^verbatim>\<open>Object.prototype\<close>. Reading
  \<^verbatim>\<open>o[k]\<close> on a plain object finds an own property first and an inherited one next.
\<close>

definition object_prototype :: obj where
  "object_prototype =
    [(''constructor'', JFun ''Object''),
     (''__defineGetter__'', JFun ''__defineGetter__''),
     (''__defineSetter__'', JFun ''__defineSetter__''),
     (''hasOwnProperty'', JFun ''hasOwnProperty''),
     (''__lookupGetter__'', JFun ''__lookupGetter__''),
     (''__lookupSetter__'', JFun ''__lookupSetter__''),
     (''isPrototypeOf'', JFun ''isPrototypeOf''),
     (''propertyIsEnumerable'', JFun ''propertyIsEnumerable''),
     (''toString'', JFun ''toString''),
     (''valueOf'', JFun ''valueOf''),
     (''__proto__'', JObj []),
     (''toLocaleString'', JFun ''toLocaleString'')]"

definition get :: "obj \<Rightarrow> string \<Rightarrow> jsval" where
  "get ob k =
    (case map_of ob k of
       Some v \<Rightarrow> v
     | None \<Rightarrow> (case map_of object_prototype k of Some v \<Rightarrow> v | None \<Rightarrow> JUndefined))"

text \<open>
  \<^verbatim>\<open>q.id\<close>, \<^verbatim>\<open>q.question\<close>, \<^verbatim>\<open>q.options\<close> on an arbitrary value: a \<^verbatim>\<open>TypeError\<close> on
  \<^verbatim>\<open>null\<close> and \<^verbatim>\<open>undefined\<close>. It is used only with names that no string, array, number
  or boolean has as a built-in member, so those give \<^verbatim>\<open>undefined\<close>.
\<close>

fun get_prop :: "jsval \<Rightarrow> string \<Rightarrow> js_error + jsval" where
  "get_prop JUndefined k = Inl TypeError"
| "get_prop JNull k = Inl TypeError"
| "get_prop (JObj kvs) k = Inr (get kvs k)"
| "get_prop v k = Inr JUndefined"

text \<open>Decimal digits of a number, for template literals and property keys.\<close>

fun digits :: "nat \<Rightarrow> string" where
  "digits n =
    (if n < 10 then [''0123456789'' ! n]
     else digits (n div 10) @ [''0123456789'' ! (n mod 10)])"

declare digits.simps [simp del]

definition number_to_string :: "int \<Rightarrow> string" where
  "number_to_string n = (if n < 0 then CHR ''-'' # digits (nat (- n)) else digits (nat n))"

fun join_comma :: "string list \<Rightarrow> string" where
  "join_comma [] = []"
| "join_comma [s] = s"
| "join_comma (s # t # ss) = s @ CHR '','' # join_comma (t # ss)"

text \<open>
  \<^verbatim>\<open>String(v)\<close>, as a template literal \<^verbatim>\<open>`${v}`\<close> and a computed property name
  \<^verbatim>\<open>o[v]\<close> apply it. An array is its elements joined by commas, \<^verbatim>\<open>null\<close> and
  \<^verbatim>\<open>undefined\<close> elements being empty. A plain object is \<^verbatim>\<open>[object Object]\<close> through
  the inherited \<^verbatim>\<open>toString\<close>; an object parsed from JSON with a property \<^verbatim>\<open>toString\<close>
  of its own hides that method behind a value that cannot be called, and the conversion
  throws a \<^verbatim>\<open>TypeError\<close> (\<^verbatim>\<open>valueOf\<close>, own or inherited, gives no primitive either).
\<close>

fun to_string :: "jsval \<Rightarrow> js_error + string"
  and to_strings :: "jsval list \<Rightarrow> js_error + string list" where
  "to_string JUndefined = Inr ''undefined''"
| "to_string JNull = Inr ''null''"
| "to_string (JBool b) = Inr (if b then ''true'' else ''false'')"
| "to_string (JNum n) = Inr (number_to_string n)"
| "to_string (JStr s) = Inr s"
| "to_string (JArr xs) =
    (case to_strings xs of Inl e \<Rightarrow> Inl e | Inr ss \<Rightarrow> Inr (join_comma ss))"
| "to_string (JObj kvs) =
    (if map_of kvs ''toString'' = None then Inr ''[object Object]'' else Inl TypeError)"
| "to_string (JFun f) = Inr (''function '' @ f @ ''() { [native code] }'')"
| "to_strings [] = Inr []"
| "to_strings (x # xs) =
    (case (if x = JUndefined \<or> x = JNull then Inr [] else to_string x) of
       Inl e \<Rightarrow> Inl e
     | Inr s \<Rightarrow> (case to_strings xs of Inl e \<Rightarrow> Inl e | Inr ss \<Rightarrow> Inr (s # ss)))"

text \<open>
  \<^verbatim>\<open>for (const x of v)\<close>: the elements of an array, the characters of a string, a
  \<^verbatim>\<open>TypeError\<close> for everything else (numbers, booleans, objects, \<^verbatim>\<open>null\<close> and
  \<^verbatim>\<open>undefined\<close> are not iterable).
\<close>

fun js_iterate :: "jsval \<Rightarrow> js_error + jsval list" where
  "js_iterate (JArr xs) = Inr xs"
| "js_iterate (JStr s) = Inr (map (\<lambda>c. JStr [c]) s)"
| "js_iterate v = Inl TypeError"

section \<open>Responses and the job collection\<close>

datatype response = Response (status: nat) (body: jsval)

definition error_body :: "string \<Rightarrow> jsval" where
  "error_body msg = JObj [(''error'', JStr msg)]"

text \<open>
  A job of the collection with the paths \<^verbatim>\<open>jobSchema\<close> declares
  (\<^verbatim>\<open>src/models/Job.js\<close>, lines 48 to 97). Its quests are the documents the database
  holds, each a list of stored properties. The handlers never see them as such: Mongoose
  writes and reads every quest through \<^verbatim>\<open>questSchema\<close> (below). The collection is the
  list of its jobs in the order the database returns them.
\<close>

record job =
  company :: string
  title :: string
  department :: string
  location :: string
  jtype :: string
  description :: string
  requirements :: "string list"
  salary_min :: string
  salary_max :: string
  quests :: "obj list"
  isActive :: bool
  createdAt :: string

section \<open>The quest schema\<close>

text \<open>
  \<^verbatim>\<open>questSchema\<close>, lines 3 to 46 of \<^verbatim>\<open>src/models/Job.js\<close>: the paths of a quest with
  their types, and the defaults (an array path defaults to the empty array). The schema
  is strict, no option of the file says otherwise: a subdocument has these paths and
  \<^verbatim>\<open>_id\<close>, nothing else. It declares \<^verbatim>\<open>enabled\<close>; it declares neither \<^verbatim>\<open>testId\<close> nor
  \<^verbatim>\<open>isActive\<close>.
\<close>

datatype schema_type = SString | SNumber | SBoolean | SStringArray

definition quest_schema :: "(string \<times> schema_type) list" where
  "quest_schema =
    [(''type'', SString), (''title'', SString), (''description'', SString),
     (''difficulty'', SString), (''duration'', SNumber), (''questions'', SNumber),
     (''passingScore'', SNumber), (''enabled'', SBoolean), (''topics'', SStringArray),
     (''questionsPerTopic'', SNumber)]"

definition quest_default :: "string \<Rightarrow> jsval option" where
  "quest_default p =
    map_of [(''difficulty'', JStr ''Medium''), (''enabled'', JBool True),
            (''topics'', JArr []), (''questionsPerTopic'', JNum 5)] p"

text \<open>
  \<^verbatim>\<open>q.name\<close> on a quest subdocument that Mongoose made of the stored document \<open>q\<close>: the
  stored value (or the default) for a path of the schema and for \<^verbatim>\<open>_id\<close>, and
  \<^verbatim>\<open>undefined\<close> for a name that is no path, whatever the database holds under it. It is
  used with the names the session handler reads: \<^verbatim>\<open>testId\<close>, \<^verbatim>\<open>isActive\<close>,
  \<^verbatim>\<open>duration\<close>, \<^verbatim>\<open>topics\<close>, \<^verbatim>\<open>questionsPerTopic\<close>.
\<close>

definition subdoc_get :: "obj \<Rightarrow> string \<Rightarrow> jsval" where
  "subdoc_get q k =
    (if k = ''_id'' \<or> k \<in> set (map fst quest_schema)
     then (case map_of q k of
             Some v \<Rightarrow> v
           | None \<Rightarrow> (case quest_default k of Some d \<Rightarrow> d | None \<Rightarrow> JUndefined))
     else JUndefined)"

text \<open>
  What \<^verbatim>\<open>$push: {quests: testConfig}\<close> stores: the object cast to the schema. A
  property that is no path is dropped; a path the object leaves \<^verbatim>\<open>undefined\<close> gets its
  default or stays unset; every other value is cast to the type of its path by \<open>cast\<close>,
  which is Mongoose's and a parameter here (it throws a \<^verbatim>\<open>CastError\<close> on a value it
  cannot convert); the subdocument gets the fresh identifier \<open>new_id\<close>. Validators
  (\<^verbatim>\<open>required\<close>, \<^verbatim>\<open>min\<close>, \<^verbatim>\<open>enum\<close>) do not run on an update.
\<close>

fun cast_paths ::
  "(schema_type \<Rightarrow> jsval \<Rightarrow> js_error + jsval) \<Rightarrow> (string \<times> schema_type) list \<Rightarrow> obj
    \<Rightarrow> js_error + obj" where
  "cast_paths cast [] ob = Inr []"
| "cast_paths cast ((p, ty) # rest) ob =
    (case cast_paths cast rest ob of
       Inl e \<Rightarrow> Inl e
     | Inr kvs \<Rightarrow>
         (case map_of ob p of
            None \<Rightarrow> Inr (case quest_default p of Some d \<Rightarrow> (p, d) # kvs | None \<Rightarrow> kvs)
          | Some v \<Rightarrow>
              if v = JUndefined
              then Inr (case quest_default p of Some d \<Rightarrow> (p, d) # kvs | None \<Rightarrow> kvs)
              else (case cast ty v of Inl e \<Rightarrow> Inl e | Inr v' \<Rightarrow> Inr ((p, v') # kvs))))"

definition cast_quest ::
  "(schema_type \<Rightarrow> jsval \<Rightarrow> js_error + jsval) \<Rightarrow> string \<Rightarrow> obj \<Rightarrow> js_error + obj" where
  "cast_quest cast new_id ob =
    (case cast_paths cast quest_schema ob of
       Inl e \<Rightarrow> Inl e
     | Inr kvs \<Rightarrow> Inr (kvs @ [(''_id'', JStr new_id)]))"

text \<open>The first job of the company gets the quest appended; with no such job nothing changes.\<close>

fun push_first :: "string \<Rightarrow> obj \<Rightarrow> job list \<Rightarrow> job list" where
  "push_first uid q [] = []"
| "push_first uid q (j # js) =
    (if company j = uid then j\<lparr>quests := quests j @ [q]\<rparr> # js
     else j # push_first uid q js)"

text \<open>
  \<^verbatim>\<open>Job.findOneAndUpdate({company: id}, {$push: {quests: testConfig}}, {new: true})\<close>
  as Mongoose runs it against this schema: the update is cast first, then sent to the
  database, which may not answer (\<open>db_ok\<close>).
\<close>

definition mongoose_push ::
  "(schema_type \<Rightarrow> jsval \<Rightarrow> js_error + jsval) \<Rightarrow> string \<Rightarrow> bool
    \<Rightarrow> string \<Rightarrow> obj \<Rightarrow> job list \<Rightarrow> js_error + job list" where
  "mongoose_push cast new_id db_ok uid testConfig jobs =
    (case cast_quest cast new_id testConfig of
       Inl e \<Rightarrow> Inl e
     | Inr q \<Rightarrow> if db_ok then Inr (push_first uid q jobs) else Inl StoreError)"

text \<open>
  \<^verbatim>\<open>Job.findOne({'quests.testId': testId})\<close> as Mongoose runs it. \<^verbatim>\<open>quests.testId\<close> is
  no path of the schema. With \<^verbatim>\<open>strictQuery\<close> on, Mongoose drops the condition and the
  first job of the collection is found; with it off, the condition goes to the database,
  which compares what is stored (a stored array matches when it contains the value).
  Which of the two holds depends on the version of Mongoose, which the sources do not
  fix.
\<close>

definition stored_matches :: "jsval \<Rightarrow> string \<Rightarrow> bool" where
  "stored_matches v tid =
    (case v of JStr s \<Rightarrow> s = tid | JArr xs \<Rightarrow> JStr tid \<in> set xs | _ \<Rightarrow> False)"

definition mongoose_findOne :: "bool \<Rightarrow> bool \<Rightarrow> string \<Rightarrow> job list \<Rightarrow> js_error + job option" where
  "mongoose_findOne db_ok strictQuery tid jobs =
    (if \<not> db_ok then Inl StoreError
     else if strictQuery then Inr (case jobs of [] \<Rightarrow> None | j # js \<Rightarrow> Some j)
     else Inr (find (\<lambda>j. list_ex
                 (\<lambda>q. case map_of q ''testId'' of None \<Rightarrow> False | Some v \<Rightarrow> stored_matches v tid)
                 (quests j)) jobs))"

text \<open>Line 36: the topics of the question source with their endpoints.\<close>

definition AVAILABLE_TOPICS :: obj where
  "AVAILABLE_TOPICS =
    [(''Mixture and Alligation'', JStr ''MixtureAndAlligation''),
     (''Profit and Loss'', JStr ''ProfitAndLoss''),
     (''Pipes and Cisterns'', JStr ''PipesAndCistern''),
     (''Age'', JStr ''Age''),
     (''Permutation and Combination'', JStr ''PermutationAndCombination''),
     (''Speed Time Distance'', JStr ''SpeedTimeDistance''),
     (''Simple Interest'', JStr ''SimpleInterest''),
     (''Calendars'', JStr ''Calendar'')]"

section \<open>Creating a test configuration\<close>

text \<open>
  Lines 174 to 178: the loop returns at the first topic whose entry in
  \<^verbatim>\<open>AVAILABLE_TOPICS\<close> is falsy; the result is that topic as the message shows it
  (the template literal converts it as the property name was converted). A topic that
  cannot be converted to a property name throws.
\<close>

fun validate_topics :: "jsval list \<Rightarrow> js_error + string option" where
  "validate_topics [] = Inr None"
| "validate_topics (topic # rest) =
    (case to_string topic of
       Inl e \<Rightarrow> Inl e
     | Inr k \<Rightarrow>
         if \<not> truthy (get AVAILABLE_TOPICS k) then Inr (Some k)
         else validate_topics rest)"

text \<open>Lines 181 to 192: the object literal \<^verbatim>\<open>testConfig\<close>.\<close>

definition make_test_config :: "string \<Rightarrow> string \<Rightarrow> obj \<Rightarrow> obj" where
  "make_test_config now_iso uid req_body =
    [(''testId'', get req_body ''testId''),
     (''company'', JStr uid),
     (''name'', get req_body ''name''),
     (''description'', get req_body ''description''),
     (''duration'', js_or (get req_body ''duration'') (JNum 45)),
     (''topics'', get req_body ''topics''),
     (''questionsPerTopic'', get req_body ''questionsPerTopic''),
     (''passingScore'', js_or (get req_body ''passingScore'') (JNum 60)),
     (''isActive'', JBool (get req_body ''isActive'' \<noteq> JBool False)),
     (''createdAt'', JStr now_iso)]"

text \<open>
  The handler of \<^verbatim>\<open>POST /api/company/tests\<close> (lines 156 to 205), after the \<^verbatim>\<open>auth\<close> and
  \<^verbatim>\<open>checkRole\<close> gates have let the request through: \<open>uid\<close> is \<^verbatim>\<open>req.user._id\<close>,
  \<open>now_iso\<close> what \<^verbatim>\<open>new Date().toISOString()\<close> gives, and \<open>findOneAndUpdate\<close> the call
  of lines 194 to 198, which gives the collection afterwards or throws
  (\<open>mongoose_push\<close> is what it is for this schema). The result is the response and the
  job collection afterwards. Every exception is caught at line 201.
\<close>

definition createTestConfig ::
  "(string \<Rightarrow> obj \<Rightarrow> job list \<Rightarrow> js_error + job list)
    \<Rightarrow> string \<Rightarrow> string \<Rightarrow> job list \<Rightarrow> obj \<Rightarrow> response \<times> job list" where
  "createTestConfig findOneAndUpdate now_iso uid jobs req_body =
    (if \<not> truthy (get req_body ''testId'') \<or> \<not> truthy (get req_body ''name'')
        \<or> \<not> truthy (get req_body ''topics'') \<or> \<not> truthy (get req_body ''questionsPerTopic'')
     then (Response 400 (error_body ''Missing required fields''), jobs)
     else
       (case js_iterate (get req_body ''topics'') of
          Inl e \<Rightarrow> (Response 500 (error_body ''Failed to create test configuration''), jobs)
        | Inr ts \<Rightarrow>
            (case validate_topics ts of
               Inl e \<Rightarrow> (Response 500 (error_body ''Failed to create test configuration''), jobs)
             | Inr (Some topic) \<Rightarrow>
                 (Response 400 (error_body (''Invalid topic: '' @ topic)), jobs)
             | Inr None \<Rightarrow>
                 (let testConfig = make_test_config now_iso uid req_body
                  in (case findOneAndUpdate uid testConfig jobs of
                        Inl e \<Rightarrow>
                          (Response 500 (error_body ''Failed to create test configuration''),
                           jobs)
                      | Inr jobs' \<Rightarrow> (Response 200 (JObj testConfig), jobs'))))))"

section \<open>Starting a test session\<close>

text \<open>
  Line 217, \<^verbatim>\<open>job.quests.find(q => q.testId === testId)\<close>: the first quest of the job
  whose \<^verbatim>\<open>testId\<close>, read off the subdocument, is the requested one.
\<close>

definition find_quest :: "string \<Rightarrow> job \<Rightarrow> obj option" where
  "find_quest tid j = find (\<lambda>q. subdoc_get q ''testId'' = JStr tid) (quests j)"

text \<open>
  \<^verbatim>\<open>questions.sort(() => Math.random() - 0.5)\<close>. The comparator ignores the two elements
  it is given; all that matters of \<^verbatim>\<open>Math.random() - 0.5\<close> is its sign, so the random
  source is the sequence \<open>rnd\<close> of the comparator's successive results and the position
  \<open>k\<close> of the next one. A negative result puts the first argument before the second.
  The language leaves the sorting algorithm to the engine; here each element is inserted
  into the sorted rest, one comparison at a time. What is proved below uses only that
  the result is a rearrangement of the array that does not depend on what the elements
  are.
\<close>

fun insert_random :: "(nat \<Rightarrow> int) \<Rightarrow> nat \<Rightarrow> 'a \<Rightarrow> 'a list \<Rightarrow> 'a list \<times> nat" where
  "insert_random rnd k x [] = ([x], k)"
| "insert_random rnd k x (y # ys) =
    (if rnd k < 0 then (x # y # ys, Suc k)
     else (case insert_random rnd (Suc k) x ys of (zs, k') \<Rightarrow> (y # zs, k')))"

fun sort_random :: "(nat \<Rightarrow> int) \<Rightarrow> nat \<Rightarrow> 'a list \<Rightarrow> 'a list \<times> nat" where
  "sort_random rnd k [] = ([], k)"
| "sort_random rnd k (x # xs) =
    (case sort_random rnd k xs of (ys, k') \<Rightarrow> insert_random rnd k' x ys)"

text \<open>
  \<^verbatim>\<open>.slice(0, end)\<close>. The end is converted to an integer or an infinity; a negative end
  counts from the end of the array, \<^verbatim>\<open>undefined\<close> is the whole array. \<open>S\<close> is the
  language's conversion of a string to a number, truncated to an integer or an infinity
  (0 for a string that is no number); it is a parameter of the model.
\<close>

datatype extint = MinusInfinity | Finite int | PlusInfinity

fun to_integer_or_infinity :: "(string \<Rightarrow> extint) \<Rightarrow> jsval \<Rightarrow> js_error + extint" where
  "to_integer_or_infinity S JUndefined = Inr (Finite 0)"
| "to_integer_or_infinity S JNull = Inr (Finite 0)"
| "to_integer_or_infinity S (JBool b) = Inr (Finite (if b then 1 else 0))"
| "to_integer_or_infinity S (JNum n) = Inr (Finite n)"
| "to_integer_or_infinity S (JStr s) = Inr (S s)"
| "to_integer_or_infinity S v =
    (case to_string v of Inl e \<Rightarrow> Inl e | Inr s \<Rightarrow> Inr (S s))"

definition slice_end :: "(string \<Rightarrow> extint) \<Rightarrow> jsval \<Rightarrow> nat \<Rightarrow> js_error + nat" where
  "slice_end S e len =
    (if e = JUndefined then Inr len
     else (case to_integer_or_infinity S e of
             Inl err \<Rightarrow> Inl err
           | Inr MinusInfinity \<Rightarrow> Inr 0
           | Inr (Finite n) \<Rightarrow>
               Inr (if n < 0 then nat (max (int len + n) 0) else nat (min n (int len)))
           | Inr PlusInfinity \<Rightarrow> Inr len))"

definition js_slice0 :: "(string \<Rightarrow> extint) \<Rightarrow> jsval \<Rightarrow> 'a list \<Rightarrow> js_error + 'a list" where
  "js_slice0 S e xs =
    (case slice_end S e (length xs) of Inl err \<Rightarrow> Inl err | Inr n \<Rightarrow> Inr (take n xs))"

text \<open>
  \<^verbatim>\<open>{...q}\<close>: the own properties of an object, the indexed elements of an array or a
  string, nothing for the other values.
\<close>

fun spread :: "jsval \<Rightarrow> obj" where
  "spread (JObj kvs) = kvs"
| "spread (JArr xs) = zip (map digits [0..<length xs]) xs"
| "spread (JStr s) = zip (map digits [0..<length s]) (map (\<lambda>c. JStr [c]) s)"
| "spread v = []"

text \<open>
  Lines 240 to 245, the function given to \<^verbatim>\<open>map\<close>:
  \<^verbatim>\<open>q => ({...q, topic, options: q.options || [], question: q.question || ''})\<close>.
\<close>

definition tag_question :: "jsval \<Rightarrow> jsval \<Rightarrow> js_error + obj" where
  "tag_question topic q =
    (case get_prop q ''options'' of
       Inl e \<Rightarrow> Inl e
     | Inr opts \<Rightarrow>
         (case get_prop q ''question'' of
            Inl e \<Rightarrow> Inl e
          | Inr qu \<Rightarrow>
              Inr (AList.update ''question'' (js_or qu (JStr []))
                    (AList.update ''options'' (js_or opts (JArr []))
                      (AList.update ''topic'' topic (spread q))))))"

text \<open>\<^verbatim>\<open>xs.map(f)\<close> where \<open>f\<close> may throw: the first exception ends the call.\<close>

fun map_throw :: "('a \<Rightarrow> js_error + 'b) \<Rightarrow> 'a list \<Rightarrow> js_error + 'b list" where
  "map_throw f [] = Inr []"
| "map_throw f (x # xs) =
    (case f x of
       Inl e \<Rightarrow> Inl e
     | Inr y \<Rightarrow> (case map_throw f xs of Inl e \<Rightarrow> Inl e | Inr ys \<Rightarrow> Inr (y # ys)))"

text \<open>Line 235: \<^verbatim>\<open>Array.isArray(response.data) ? response.data : [response.data]\<close>.\<close>

definition as_pool :: "jsval \<Rightarrow> jsval list" where
  "as_pool d = (case d of JArr xs \<Rightarrow> xs | _ \<Rightarrow> [d])"

text \<open>
  Lines 235 to 245: from the answer of the question source to \<^verbatim>\<open>selectedQuestions\<close>,
  for the quota \<^verbatim>\<open>testConfig.questionsPerTopic\<close>. The second component is the position
  of the random source afterwards.
\<close>

definition select_questions ::
  "(string \<Rightarrow> extint) \<Rightarrow> (nat \<Rightarrow> int) \<Rightarrow> nat \<Rightarrow> jsval \<Rightarrow> jsval \<Rightarrow> jsval
    \<Rightarrow> (js_error + obj list) \<times> nat" where
  "select_questions S rnd k quota topic d =
    (case sort_random rnd k (as_pool d) of
       (shuffled, k') \<Rightarrow>
         (case js_slice0 S quota shuffled of
            Inl e \<Rightarrow> (Inl e, k')
          | Inr chosen \<Rightarrow> (map_throw (tag_question topic) chosen, k')))"

text \<open>The object \<^verbatim>\<open>test\<close> of lines 223 to 230 and the entries pushed to its topics.\<close>

record topic_entry =
  name :: jsval
  questions :: "obj list"

record test =
  testId :: string
  userId :: string
  startTime :: string
  duration :: jsval
  topics :: "topic_entry list"
  totalQuestions :: nat

text \<open>Lines 233 and 234: the address of the topic's endpoint.\<close>

definition topic_url :: "jsval \<Rightarrow> js_error + string" where
  "topic_url topic =
    (case to_string topic of
       Inl e \<Rightarrow> Inl e
     | Inr k \<Rightarrow>
         (case to_string (get AVAILABLE_TOPICS k) of
            Inl e \<Rightarrow> Inl e
          | Inr endpoint \<Rightarrow> Inr (''https://aptitude-api.vercel.app/'' @ endpoint)))"

text \<open>
  The loop of lines 232 to 252. \<open>fetch i url\<close> is what the \<open>i\<close>-th \<^verbatim>\<open>axios.get\<close> of the
  request gives for that address: the parsed body, or an exception (no connection, a
  status that is not 2xx). An exception leaves the loop.
\<close>

fun fetch_topics ::
  "(string \<Rightarrow> extint) \<Rightarrow> (nat \<Rightarrow> int) \<Rightarrow> (nat \<Rightarrow> string \<Rightarrow> js_error + jsval) \<Rightarrow> jsval
    \<Rightarrow> jsval list \<Rightarrow> nat \<Rightarrow> nat \<Rightarrow> test \<Rightarrow> js_error + test" where
  "fetch_topics S rnd fetch quota [] i k t = Inr t"
| "fetch_topics S rnd fetch quota (topic # rest) i k t =
    (case topic_url topic of
       Inl e \<Rightarrow> Inl e
     | Inr url \<Rightarrow>
         (case fetch i url of
            Inl e \<Rightarrow> Inl e
          | Inr d \<Rightarrow>
              (case select_questions S rnd k quota topic d of
                 (Inl e, k') \<Rightarrow> Inl e
               | (Inr selectedQuestions, k') \<Rightarrow>
                   fetch_topics S rnd fetch quota rest (Suc i) k'
                     (t\<lparr>topics := topics t @ [\<lparr>name = topic, questions = selectedQuestions\<rparr>],
                        totalQuestions := totalQuestions t + length selectedQuestions\<rparr>))))"

text \<open>Lines 257 to 272: the body of the successful response.\<close>

definition public_question :: "obj \<Rightarrow> jsval" where
  "public_question q =
    JObj [(''id'', get q ''id''), (''question'', get q ''question''),
          (''options'', get q ''options''), (''topic'', get q ''topic'')]"

definition public_topic :: "topic_entry \<Rightarrow> jsval" where
  "public_topic e =
    JObj [(''name'', name e), (''questions'', JArr (map public_question (questions e)))]"

definition session_payload :: "string \<Rightarrow> test \<Rightarrow> jsval" where
  "session_payload sessionId t =
    JObj [(''sessionId'', JStr sessionId),
          (''testId'', JStr (testId t)),
          (''startTime'', JStr (startTime t)),
          (''duration'', duration t),
          (''topics'', JArr (map public_topic (topics t))),
          (''totalQuestions'', JNum (int (totalQuestions t)))]"

text \<open>
  Lines 222 to 272: the session of the quest subdocument \<open>testConfig\<close>, once line 218
  has let it through. \<open>uid\<close> is \<^verbatim>\<open>req.user._id\<close>, \<open>tid\<close> is \<^verbatim>\<open>req.params.testId\<close>,
  \<open>start_iso\<close> is what \<^verbatim>\<open>new Date().toISOString()\<close> gives at line 226 and \<open>now_ms\<close> what
  \<^verbatim>\<open>Date.now()\<close> gives at line 255. Every exception is caught at line 273.
\<close>

definition assemble_session ::
  "(string \<Rightarrow> extint) \<Rightarrow> (nat \<Rightarrow> int) \<Rightarrow> (nat \<Rightarrow> string \<Rightarrow> js_error + jsval)
    \<Rightarrow> string \<Rightarrow> int \<Rightarrow> string \<Rightarrow> string \<Rightarrow> obj \<Rightarrow> response" where
  "assemble_session S rnd fetch start_iso now_ms uid tid testConfig =
    (case js_iterate (subdoc_get testConfig ''topics'') of
       Inl e \<Rightarrow> Response 500 (error_body ''Failed to start test'')
     | Inr ts \<Rightarrow>
         (case fetch_topics S rnd fetch (subdoc_get testConfig ''questionsPerTopic'') ts 0 0
                 \<lparr>testId = tid, userId = uid, startTime = start_iso,
                  duration = subdoc_get testConfig ''duration'', topics = [],
                  totalQuestions = 0\<rparr> of
            Inl e \<Rightarrow> Response 500 (error_body ''Failed to start test'')
          | Inr t \<Rightarrow>
              Response 200
                (session_payload (tid @ ''-'' @ uid @ ''-'' @ number_to_string now_ms) t)))"

text \<open>
  The handler of \<^verbatim>\<open>POST /api/tests/:testId/start\<close> (lines 208 to 277), after the \<^verbatim>\<open>auth\<close>
  gate has let the request through. \<open>findOne\<close> is the call of line 211, which gives a
  job of the collection, none, or throws (\<open>mongoose_findOne\<close> is what it is for this
  schema).
\<close>

definition startSession ::
  "(string \<Rightarrow> extint) \<Rightarrow> (nat \<Rightarrow> int) \<Rightarrow> (nat \<Rightarrow> string \<Rightarrow> js_error + jsval)
    \<Rightarrow> (string \<Rightarrow> job list \<Rightarrow> js_error + job option)
    \<Rightarrow> string \<Rightarrow> int \<Rightarrow> string \<Rightarrow> job list \<Rightarrow> string \<Rightarrow> response" where
  "startSession S rnd fetch findOne start_iso now_ms uid jobs tid =
    (case findOne tid jobs of
       Inl e \<Rightarrow> Response 500 (error_body ''Failed to start test'')
     | Inr None \<Rightarrow> Response 404 (error_body ''Test not found'')
     | Inr (Some j) \<Rightarrow>
         (case find_quest tid j of
            None \<Rightarrow> Response 404 (error_body ''Test not found or inactive'')
          | Some testConfig \<Rightarrow>
              if \<not> truthy (subdoc_get testConfig ''isActive'')
              then Response 404 (error_body ''Test not found or inactive'')
              else assemble_session S rnd fetch start_iso now_ms uid tid testConfig))"

section \<open>Logging in\<close>

text \<open>
  The user model (\<^verbatim>\<open>./models/User\<close>) and the token issuer (\<^verbatim>\<open>./middleware/auth\<close>) are
  not among the sources, so the handler takes them as parameters: \<open>findOne\<close> is
  \<^verbatim>\<open>User.findOne({email})\<close>, \<open>comparePassword\<close> the method of that name and
  \<open>generateToken\<close> the issuer. Each may throw.
\<close>

record user =
  user_id :: string
  email :: jsval
  user_name :: jsval
  role :: jsval
  companyName :: jsval

text \<open>The handler of \<^verbatim>\<open>POST /api/auth/login\<close>, lines 85 to 116.\<close>

definition login ::
  "(jsval \<Rightarrow> js_error + user option) \<Rightarrow> (user \<Rightarrow> jsval \<Rightarrow> js_error + bool)
    \<Rightarrow> (user \<Rightarrow> js_error + string) \<Rightarrow> obj \<Rightarrow> response" where
  "login findOne comparePassword generateToken req_body =
    (case findOne (get req_body ''email'') of
       Inl e \<Rightarrow> Response 500 (error_body ''Login failed'')
     | Inr None \<Rightarrow> Response 401 (error_body ''Invalid credentials'')
     | Inr (Some u) \<Rightarrow>
         (case comparePassword u (get req_body ''password'') of
            Inl e \<Rightarrow> Response 500 (error_body ''Login failed'')
          | Inr isMatch \<Rightarrow>
              if \<not> isMatch then Response 401 (error_body ''Invalid credentials'')
              else
                (case generateToken u of
                   Inl e \<Rightarrow> Response 500 (error_body ''Login failed'')
                 | Inr token \<Rightarrow>
                     Response 200
                       (JObj [(''token'', JStr token),
                              (''user'',
                               JObj [(''id'', JStr (user_id u)), (''email'', email u),
                                     (''name'', user_name u), (''role'', role u),
                                     (''companyName'', companyName u)])]))))"

section \<open>Reading a response\<close>

text \<open>The parts of a session payload, read back from the body of the response.\<close>

definition payload_topics :: "jsval \<Rightarrow> jsval list" where
  "payload_topics b =
    (case b of
       JObj kvs \<Rightarrow> (case get kvs ''topics'' of JArr es \<Rightarrow> es | _ \<Rightarrow> [])
     | _ \<Rightarrow> [])"

definition payload_total :: "jsval \<Rightarrow> jsval" where
  "payload_total b = (case b of JObj kvs \<Rightarrow> get kvs ''totalQuestions'' | _ \<Rightarrow> JUndefined)"

definition entry_name :: "jsval \<Rightarrow> jsval" where
  "entry_name e = (case e of JObj kvs \<Rightarrow> get kvs ''name'' | _ \<Rightarrow> JUndefined)"

definition entry_questions :: "jsval \<Rightarrow> jsval list" where
  "entry_questions e =
    (case e of
       JObj kvs \<Rightarrow> (case get kvs ''questions'' of JArr qs \<Rightarrow> qs | _ \<Rightarrow> [])
     | _ \<Rightarrow> [])"




section \<open>Concrete data used below\<close>

text \<open>A company with one job, and its request for a test with given topics and quota.\<close>

definition example_job :: job where
  "example_job =
    \<lparr>company = ''u1'', title = ''Engineer'', department = ''R and D'', location = ''Pune'',
     jtype = ''Full-time'', description = ''Builds things'', requirements = [],
     salary_min = ''10'', salary_max = ''20'', quests = [], isActive = True,
     createdAt = ''2024-01-01''\<rparr>"

definition example_request :: "jsval \<Rightarrow> jsval \<Rightarrow> obj" where
  "example_request ts quota =
    [(''testId'', JStr ''t1''), (''name'', JStr ''Aptitude round''), (''topics'', ts),
     (''questionsPerTopic'', quota)]"

definition request_with :: "obj \<Rightarrow> obj" where
  "request_with extra =
    example_request (JArr [JStr ''Age'', JStr ''Calendars'']) (JNum 2) @ extra"

definition two_topics :: jsval where
  "two_topics = JArr [JStr ''Age'', JStr ''Calendars'']"

definition example_config :: "jsval \<Rightarrow> jsval \<Rightarrow> obj" where
  "example_config ts quota = make_test_config ''2024-05-01'' ''u1'' (example_request ts quota)"

text \<open>
  A cast for values that have the declared type already, which it leaves as they are;
  the store it gives, which answers; and the quest that store holds after the request
  above, with the collection around it.
\<close>

definition example_cast :: "schema_type \<Rightarrow> jsval \<Rightarrow> js_error + jsval" where
  "example_cast ty v = Inr v"

definition example_push :: "string \<Rightarrow> obj \<Rightarrow> job list \<Rightarrow> js_error + job list" where
  "example_push = mongoose_push example_cast ''q1'' True"

definition stored_quest :: "jsval \<Rightarrow> jsval \<Rightarrow> obj" where
  "stored_quest ts quota =
    [(''difficulty'', JStr ''Medium''), (''duration'', JNum 45), (''passingScore'', JNum 60),
     (''enabled'', JBool True), (''topics'', ts), (''questionsPerTopic'', quota),
     (''_id'', JStr ''q1'')]"

definition created_jobs :: "jsval \<Rightarrow> jsval \<Rightarrow> job list" where
  "created_jobs ts quota = [example_job\<lparr>quests := [stored_quest ts quota]\<rparr>]"

text \<open>
  A collection whose quest holds, in the database, a test id and both flags, as if
  written there directly.
\<close>

definition raw_jobs :: "job list" where
  "raw_jobs =
    [example_job\<lparr>quests :=
       [[(''testId'', JStr ''t1''), (''isActive'', JBool True), (''enabled'', JBool True),
         (''duration'', JNum 45), (''topics'', JArr [JStr ''Age'']),
         (''questionsPerTopic'', JNum 2)]]\<rparr>]"

text \<open>Question records with an answer key, and pools of them.\<close>

definition example_question :: "int \<Rightarrow> string \<Rightarrow> jsval" where
  "example_question i answer =
    JObj [(''id'', JNum i), (''question'', JStr ''How old is A?''),
          (''options'', JArr [JStr ''10'', JStr ''12'']), (''answer'', JStr answer)]"

definition example_pool :: jsval where
  "example_pool =
    JArr [example_question 1 ''10'', example_question 2 ''12'', example_question 3 ''10'']"



text \<open>A random source, question sources and a string conversion.\<close>

definition example_rnd :: "nat \<Rightarrow> int" where
  "example_rnd k = (if even k then - 1 else 1)"

definition example_fetch :: "nat \<Rightarrow> string \<Rightarrow> js_error + jsval" where
  "example_fetch i url = Inr example_pool"




definition no_numeric_strings :: "string \<Rightarrow> extint" where
  "no_numeric_strings s = Finite 0"

section \<open>The random sort rearranges\<close>

lemma mset_insert_random: "mset (fst (insert_random rnd k x ys)) = add_mset x (mset ys)"
proof (induction ys arbitrary: k)
  case Nil
  show ?case by simp
next
  case (Cons y ys)
  obtain zs k' where i: "insert_random rnd (Suc k) x ys = (zs, k')"
    by (cases "insert_random rnd (Suc k) x ys")
  with Cons [of "Suc k"] have "mset zs = add_mset x (mset ys)" by simp
  with i show ?case by simp
qed

lemma mset_sort_random: "mset (fst (sort_random rnd k xs)) = mset xs"
proof (induction xs)
  case Nil
  show ?case by simp
next
  case (Cons x xs)
  obtain ys k' where s: "sort_random rnd k xs = (ys, k')" by (cases "sort_random rnd k xs")
  with Cons have "mset ys = mset xs" by simp
  with s show ?case by (simp add: mset_insert_random)
qed

lemma length_sort_random: "length (fst (sort_random rnd k xs)) = length xs"
  using mset_sort_random [of rnd k xs] by (metis size_mset)



lemma map_throw_Inr_D: "map_throw f xs = Inr ys \<Longrightarrow> list_all2 (\<lambda>x y. f x = Inr y) xs ys"
  by (induction xs arbitrary: ys) (auto split: sum.splits)

lemma map_throw_Inr_I: "list_all2 (\<lambda>x y. f x = Inr y) xs ys \<Longrightarrow> map_throw f xs = Inr ys"
  by (induction xs ys rule: list_all2_induct) auto

lemma map_throw_Inl: "map_throw f xs = Inl e \<Longrightarrow> \<exists>x\<in>set xs. f x = Inl e"
  by (induction xs) (auto split: sum.splits)

lemma map_throw_total: "(\<forall>x\<in>set xs. \<exists>y. f x = Inr y) \<Longrightarrow> \<exists>ys. map_throw f xs = Inr ys"
  by (induction xs) (auto split: sum.splits)

lemma digits_chars: "set (digits n) \<subseteq> set ''0123456789''"
proof (induction n rule: digits.induct)
  case (1 n)
  show ?case
  proof (cases "n < 10")
    case True
    then have "''0123456789'' ! n \<in> set ''0123456789''" by (intro nth_mem) simp
    with True show ?thesis by (subst digits.simps) simp
  next
    case False
    have "n mod 10 < 10" by simp
    then have "''0123456789'' ! (n mod 10) \<in> set ''0123456789''" by (intro nth_mem) simp
    with False 1 show ?thesis by (subst digits.simps) simp
  qed
qed

lemma no_inherited:
  "map_of object_prototype ''id'' = None"
  "map_of object_prototype ''question'' = None"
  "map_of object_prototype ''options'' = None"
  "map_of object_prototype ''topic'' = None"
  by (simp_all add: object_prototype_def)

lemma get_index_keys:
  assumes "k \<in> {''id'', ''question'', ''options''}"
  shows "get (zip (map digits ns) vs) k = JUndefined"
proof -
  have "k \<notin> set (map digits ns)"
  proof
    assume "k \<in> set (map digits ns)"
    then obtain n where "k = digits n" by auto
    with digits_chars [of n] have "set k \<subseteq> set ''0123456789''" by simp
    with assms show False by auto
  qed
  then have "k \<notin> fst ` set (zip (map digits ns) vs)"
    by (auto dest: set_zip_leftD)
  then have "map_of (zip (map digits ns) vs) k = None"
    by (simp add: map_of_eq_None_iff)
  moreover from assms have "map_of object_prototype k = None"
    using no_inherited by blast
  ultimately show ?thesis by (simp add: get_def)
qed

section \<open>Tagging and selecting questions\<close>

lemma get_update: "get (AList.update k v al) k' = (if k' = k then v else get al k')"
  by (simp add: get_def update_conv')



lemma tag_question_Inr: "q \<noteq> JNull \<Longrightarrow> q \<noteq> JUndefined \<Longrightarrow> \<exists>m. tag_question topic q = Inr m"
  by (cases q) (simp_all add: tag_question_def)

lemma tag_question_topic: "tag_question topic q = Inr m \<Longrightarrow> get m ''topic'' = topic"
  by (auto simp: tag_question_def get_update split: sum.splits)

lemma get_spread:
  assumes "k \<in> {''id'', ''question'', ''options''}" and "get_prop q k = Inr v"
  shows "get (spread q) k = v"
proof (cases q)
  case (JArr xs)
  with assms get_index_keys [OF assms(1), of "[0..<length xs]" xs] show ?thesis by simp
next
  case (JStr s)
  with assms get_index_keys [OF assms(1), of "[0..<length s]" "map (\<lambda>c. JStr [c]) s"]
  show ?thesis by simp
next
  case (JObj kvs)
  with assms show ?thesis by simp
next
  case JUndefined
  with assms show ?thesis by simp
next
  case JNull
  with assms show ?thesis by simp
next
  case (JBool b)
  from assms(1) have "map_of object_prototype k = None" using no_inherited by blast
  with JBool assms(2) show ?thesis by (simp add: get_def)
next
  case (JNum n)
  from assms(1) have "map_of object_prototype k = None" using no_inherited by blast
  with JNum assms(2) show ?thesis by (simp add: get_def)
next
  case (JFun f)
  from assms(1) have "map_of object_prototype k = None" using no_inherited by blast
  with JFun assms(2) show ?thesis by (simp add: get_def)
qed

lemma tag_question_public:
  assumes "tag_question topic q = Inr m"
  shows "\<exists>i qu opts. get_prop q ''id'' = Inr i \<and> get_prop q ''question'' = Inr qu
           \<and> get_prop q ''options'' = Inr opts
           \<and> public_question m =
               JObj [(''id'', i), (''question'', js_or qu (JStr [])),
                     (''options'', js_or opts (JArr [])), (''topic'', topic)]"
proof -
  from assms obtain opts qu where o: "get_prop q ''options'' = Inr opts"
    and u: "get_prop q ''question'' = Inr qu"
    and m: "m = AList.update ''question'' (js_or qu (JStr []))
                  (AList.update ''options'' (js_or opts (JArr []))
                    (AList.update ''topic'' topic (spread q)))"
    by (auto simp: tag_question_def split: sum.splits)
  from o obtain i where i: "get_prop q ''id'' = Inr i" by (cases q) simp_all
  have "get (spread q) ''id'' = i" by (rule get_spread [OF _ i]) simp
  then have "public_question m =
      JObj [(''id'', i), (''question'', js_or qu (JStr [])),
            (''options'', js_or opts (JArr [])), (''topic'', topic)]"
    by (simp add: public_question_def m get_update)
  with i o u show ?thesis by blast
qed

lemma slice_end_le: "slice_end S e len = Inr n \<Longrightarrow> n \<le> len"
  by (auto simp: slice_end_def split: if_splits sum.splits extint.splits)

lemma slice_end_JNum:
  "slice_end S (JNum n) len = Inr (if 0 \<le> n then min (nat n) len else len - nat (- n))"
  by (auto simp: slice_end_def)

lemma select_questions_Inr:
  assumes "select_questions S rnd k quota topic d = (Inr qs, k')"
  shows "\<exists>sel. mset sel \<subseteq># mset (as_pool d)
           \<and> slice_end S quota (length (as_pool d)) = Inr (length sel)
           \<and> list_all2 (\<lambda>q m. tag_question topic q = Inr m) sel qs"
proof -
  obtain shuffled k1 where s: "sort_random rnd k (as_pool d) = (shuffled, k1)"
    by (cases "sort_random rnd k (as_pool d)")
  from s have ms: "mset shuffled = mset (as_pool d)" and len: "length shuffled = length (as_pool d)"
    using mset_sort_random [of rnd k "as_pool d"] length_sort_random [of rnd k "as_pool d"]
    by simp_all
  from assms s obtain n where n: "slice_end S quota (length shuffled) = Inr n"
    and t: "map_throw (tag_question topic) (take n shuffled) = Inr qs"
    by (auto simp: select_questions_def js_slice0_def split: sum.splits)
  define sel where "sel = take n shuffled"
  have "mset (take n shuffled) \<subseteq># mset shuffled"
    by (metis append_take_drop_id mset_append mset_subset_eq_add_left)
  with ms have 1: "mset sel \<subseteq># mset (as_pool d)" by (simp add: sel_def)
  from slice_end_le [OF n] have "length sel = n" by (simp add: sel_def)
  with n len have 2: "slice_end S quota (length (as_pool d)) = Inr (length sel)" by simp
  from t have 3: "list_all2 (\<lambda>q m. tag_question topic q = Inr m) sel qs"
    unfolding sel_def by (rule map_throw_Inr_D)
  from 1 2 3 show ?thesis by blast
qed

lemma select_questions_total:
  assumes "\<forall>q\<in>set (as_pool d). q \<noteq> JNull \<and> q \<noteq> JUndefined"
    and "slice_end S quota (length (as_pool d)) = Inr n"
  shows "\<exists>qs k'. select_questions S rnd k quota topic d = (Inr qs, k')"
proof -
  obtain shuffled k1 where s: "sort_random rnd k (as_pool d) = (shuffled, k1)"
    by (cases "sort_random rnd k (as_pool d)")
  then have "set shuffled = set (as_pool d)"
    using mset_sort_random [of rnd k "as_pool d"] by (metis fst_conv set_mset_mset)
  then have "set (take n shuffled) \<subseteq> set (as_pool d)"
    by (auto dest: in_set_takeD)
  with assms(1) have "\<forall>q\<in>set (take n shuffled). \<exists>m. tag_question topic q = Inr m"
    by (auto intro: tag_question_Inr)
  then obtain qs where "map_throw (tag_question topic) (take n shuffled) = Inr qs"
    using map_throw_total by blast
  moreover from s have "length shuffled = length (as_pool d)"
    using length_sort_random [of rnd k "as_pool d"] by simp
  ultimately show ?thesis using s assms(2)
    by (simp add: select_questions_def js_slice0_def)
qed

section \<open>The loop over the topics\<close>

lemma fetch_topics_Inr:
  assumes "fetch_topics S rnd fetch quota ts i k t = Inr t'"
  shows "\<exists>es. topics t' = topics t @ es \<and> length es = length ts
     \<and> totalQuestions t' = totalQuestions t + sum_list (map (\<lambda>e. length (questions e)) es)
     \<and> (\<forall>j<length ts. name (es ! j) = ts ! j
           \<and> (\<exists>url d kj kj'. topic_url (ts ! j) = Inr url \<and> fetch (i + j) url = Inr d
                 \<and> select_questions S rnd kj quota (ts ! j) d = (Inr (questions (es ! j)), kj')))
     \<and> testId t' = testId t \<and> userId t' = userId t \<and> startTime t' = startTime t
     \<and> duration t' = duration t"
  using assms
proof (induction ts arbitrary: i k t)
  case Nil
  then show ?case by simp
next
  case (Cons topic rest)
  from Cons.prems obtain url where u: "topic_url topic = Inr url"
    by (auto split: sum.splits)
  from Cons.prems u obtain d where d: "fetch i url = Inr d"
    by (auto split: sum.splits)
  from Cons.prems u d obtain sel k1 where
    sel: "select_questions S rnd k quota topic d = (Inr sel, k1)"
    by (auto split: sum.splits prod.splits)
  define t1 where "t1 = t\<lparr>topics := topics t @ [\<lparr>name = topic, questions = sel\<rparr>],
                          totalQuestions := totalQuestions t + length sel\<rparr>"
  from Cons.prems u d sel have "fetch_topics S rnd fetch quota rest (Suc i) k1 t1 = Inr t'"
    by (simp add: t1_def)
  from Cons.IH [OF this] obtain es where
    es: "topics t' = topics t1 @ es" "length es = length rest"
      "totalQuestions t' = totalQuestions t1 + sum_list (map (\<lambda>e. length (questions e)) es)"
      "\<forall>j<length rest. name (es ! j) = rest ! j
           \<and> (\<exists>url d kj kj'. topic_url (rest ! j) = Inr url \<and> fetch (Suc i + j) url = Inr d
                 \<and> select_questions S rnd kj quota (rest ! j) d = (Inr (questions (es ! j)), kj'))"
      "testId t' = testId t1" "userId t' = userId t1" "startTime t' = startTime t1"
      "duration t' = duration t1"
    by blast
  let ?e = "\<lparr>name = topic, questions = sel\<rparr>"
  have "\<forall>j<length (topic # rest). name ((?e # es) ! j) = (topic # rest) ! j
           \<and> (\<exists>url d kj kj'. topic_url ((topic # rest) ! j) = Inr url
                 \<and> fetch (i + j) url = Inr d
                 \<and> select_questions S rnd kj quota ((topic # rest) ! j) d
                     = (Inr (questions ((?e # es) ! j)), kj'))"
  proof (intro allI impI)
    fix j assume j: "j < length (topic # rest)"
    show "name ((?e # es) ! j) = (topic # rest) ! j
           \<and> (\<exists>url d kj kj'. topic_url ((topic # rest) ! j) = Inr url
                 \<and> fetch (i + j) url = Inr d
                 \<and> select_questions S rnd kj quota ((topic # rest) ! j) d
                     = (Inr (questions ((?e # es) ! j)), kj'))"
    proof (cases j)
      case 0
      with u d sel show ?thesis by auto
    next
      case (Suc j')
      with j es(4) show ?thesis by simp
    qed
  qed
  with es show ?case
    by (intro exI [of _ "?e # es"]) (simp add: t1_def)
qed

lemma fetch_topics_total:
  assumes "\<forall>j<length ts. \<exists>url d n. topic_url (ts ! j) = Inr url \<and> fetch (i + j) url = Inr d
              \<and> (\<forall>q\<in>set (as_pool d). q \<noteq> JNull \<and> q \<noteq> JUndefined)
              \<and> slice_end S quota (length (as_pool d)) = Inr n"
  shows "\<exists>t'. fetch_topics S rnd fetch quota ts i k t = Inr t'"
  using assms
proof (induction ts arbitrary: i k t)
  case Nil
  then show ?case by simp
next
  case (Cons topic rest)
  from Cons.prems [rule_format, of 0] obtain url d n where u: "topic_url topic = Inr url"
    and d: "fetch i url = Inr d"
    and nn: "\<forall>q\<in>set (as_pool d). q \<noteq> JNull \<and> q \<noteq> JUndefined"
    and sl: "slice_end S quota (length (as_pool d)) = Inr n" by auto
  from select_questions_total [OF nn sl] obtain sel k1 where
    sel: "select_questions S rnd k quota topic d = (Inr sel, k1)" by blast
  have "\<forall>j<length rest. \<exists>url d n. topic_url (rest ! j) = Inr url
              \<and> fetch (Suc i + j) url = Inr d
              \<and> (\<forall>q\<in>set (as_pool d). q \<noteq> JNull \<and> q \<noteq> JUndefined)
              \<and> slice_end S quota (length (as_pool d)) = Inr n"
  proof (intro allI impI)
    fix j assume "j < length rest"
    with Cons.prems [rule_format, of "Suc j"]
    show "\<exists>url d n. topic_url (rest ! j) = Inr url \<and> fetch (Suc i + j) url = Inr d
              \<and> (\<forall>q\<in>set (as_pool d). q \<noteq> JNull \<and> q \<noteq> JUndefined)
              \<and> slice_end S quota (length (as_pool d)) = Inr n" by simp
  qed
  from Cons.IH [OF this] u d sel show ?case by simp
qed

lemma fetch_topics_fails:
  assumes "j < length ts" and "topic_url (ts ! j) = Inr url" and "fetch (i + j) url = Inl e"
  shows "\<exists>e'. fetch_topics S rnd fetch quota ts i k t = Inl e'"
  using assms
proof (induction ts arbitrary: i j k t)
  case Nil
  then show ?case by simp
next
  case (Cons topic rest)
  show ?case
  proof (cases j)
    case 0
    with Cons.prems show ?thesis by simp
  next
    case (Suc j')
    with Cons.prems have j': "j' < length rest" and u: "topic_url (rest ! j') = Inr url"
      and f: "fetch (Suc i + j') url = Inl e" by simp_all
    show ?thesis
    proof (cases "topic_url topic")
      case (Inl a)
      then show ?thesis by simp
    next
      case (Inr url0)
      note url0 = this
      show ?thesis
      proof (cases "fetch i url0")
        case (Inl a)
        with url0 show ?thesis by simp
      next
        case (Inr d)
        note d = this
        obtain r k1 where s: "select_questions S rnd k quota topic d = (r, k1)"
          by (cases "select_questions S rnd k quota topic d")
        show ?thesis
        proof (cases r)
          case (Inl a)
          with url0 d s show ?thesis by simp
        next
          case (Inr sel)
          with url0 d s Cons.IH [OF j' u f] show ?thesis by simp
        qed
      qed
    qed
  qed
qed

section \<open>The session handler never reaches the assembly\<close>

text \<open>
  \<^verbatim>\<open>testId\<close> and \<^verbatim>\<open>isActive\<close> are no paths of the quest schema, so both are
  \<^verbatim>\<open>undefined\<close> on every subdocument: the search of line 217 finds nothing in any job,
  and the handler answers 404, or 500 when the query throws, whatever the collection
  holds and whatever the query returns.
\<close>

lemma subdoc_get_not_declared:
  "subdoc_get q ''testId'' = JUndefined" "subdoc_get q ''isActive'' = JUndefined"
  by (simp_all add: subdoc_get_def quest_schema_def)

lemma find_quest_None: "find_quest tid j = None"
  by (simp add: find_quest_def find_None_iff subdoc_get_not_declared)

lemma startSession_cases:
  "startSession S rnd fetch findOne start_iso now_ms uid jobs tid =
     (case findOne tid jobs of
        Inl e \<Rightarrow> Response 500 (error_body ''Failed to start test'')
      | Inr None \<Rightarrow> Response 404 (error_body ''Test not found'')
      | Inr (Some j) \<Rightarrow> Response 404 (error_body ''Test not found or inactive''))"
  by (simp add: startSession_def find_quest_None split: sum.splits option.splits)

lemma startSession_never_assembles:
  "startSession S rnd fetch findOne start_iso now_ms uid jobs tid
     = Response 404 (error_body ''Test not found'')
   \<or> startSession S rnd fetch findOne start_iso now_ms uid jobs tid
     = Response 404 (error_body ''Test not found or inactive'')
   \<or> startSession S rnd fetch findOne start_iso now_ms uid jobs tid
     = Response 500 (error_body ''Failed to start test'')"
  by (simp add: startSession_cases split: sum.splits option.splits)


section \<open>What the assembly does with a quest\<close>

text \<open>
  Lines 222 to 272 taken by themselves, for any quest subdocument: the properties the
  session would have if the handler reached them.
\<close>

lemma payload_topics_session [simp]:
  "payload_topics (session_payload sid t) = map public_topic (topics t)"
  by (simp add: payload_topics_def session_payload_def get_def)

lemma payload_total_session [simp]:
  "payload_total (session_payload sid t) = JNum (int (totalQuestions t))"
  by (simp add: payload_total_def session_payload_def get_def)

lemma entry_name_public [simp]: "entry_name (public_topic e) = name e"
  by (simp add: entry_name_def public_topic_def get_def)

lemma entry_questions_public [simp]:
  "entry_questions (public_topic e) = map public_question (questions e)"
  by (simp add: entry_questions_def public_topic_def get_def)

lemma assemble_session_200:
  assumes "assemble_session S rnd fetch start_iso now_ms uid tid cfg = Response 200 b"
  shows "\<exists>ts t. js_iterate (subdoc_get cfg ''topics'') = Inr ts
          \<and> fetch_topics S rnd fetch (subdoc_get cfg ''questionsPerTopic'') ts 0 0
                \<lparr>testId = tid, userId = uid, startTime = start_iso,
                 duration = subdoc_get cfg ''duration'', topics = [], totalQuestions = 0\<rparr> = Inr t
          \<and> b = session_payload (tid @ ''-'' @ uid @ ''-'' @ number_to_string now_ms) t"
  using assms by (auto simp: assemble_session_def error_body_def split: sum.splits)


lemma assemble_session_topics_in_order:
  assumes "assemble_session S rnd fetch start_iso now_ms uid tid cfg = Response 200 b"
  shows "\<exists>ts. js_iterate (subdoc_get cfg ''topics'') = Inr ts
          \<and> map entry_name (payload_topics b) = ts
          \<and> payload_total b =
              JNum (int (sum_list (map (\<lambda>e. length (entry_questions e)) (payload_topics b))))"
proof -
  from assemble_session_200 [OF assms] obtain ts t where
    ts: "js_iterate (subdoc_get cfg ''topics'') = Inr ts"
    and f: "fetch_topics S rnd fetch (subdoc_get cfg ''questionsPerTopic'') ts 0 0
                \<lparr>testId = tid, userId = uid, startTime = start_iso,
                 duration = subdoc_get cfg ''duration'', topics = [], totalQuestions = 0\<rparr> = Inr t"
    and b: "b = session_payload (tid @ ''-'' @ uid @ ''-'' @ number_to_string now_ms) t"
    by blast
  from fetch_topics_Inr [OF f] obtain es where
    es: "topics t = es" "length es = length ts"
      "totalQuestions t = sum_list (map (\<lambda>e. length (questions e)) es)"
      "\<forall>j<length ts. name (es ! j) = ts ! j"
    by auto
  from es(2,4) have "map name es = ts" by (intro nth_equalityI) simp_all
  then have 1: "map entry_name (payload_topics b) = ts"
    by (simp add: b es(1) comp_def)
  have 2: "payload_total b =
      JNum (int (sum_list (map (\<lambda>e. length (entry_questions e)) (payload_topics b))))"
    by (simp add: b es(1,3) comp_def)
  from ts 1 2 show ?thesis by blast
qed

lemma assemble_session_selection:
  assumes "js_iterate (subdoc_get cfg ''topics'') = Inr ts"
    and "subdoc_get cfg ''questionsPerTopic'' = JNum n"
    and "\<forall>i<length ts. \<exists>url d. topic_url (ts ! i) = Inr url \<and> fetch i url = Inr d
            \<and> (\<forall>q\<in>set (as_pool d). q \<noteq> JNull \<and> q \<noteq> JUndefined)"
  shows "\<exists>b. assemble_session S rnd fetch start_iso now_ms uid tid cfg = Response 200 b
          \<and> length (payload_topics b) = length ts
          \<and> (\<forall>i<length ts. \<exists>url d sel.
                topic_url (ts ! i) = Inr url \<and> fetch i url = Inr d
                \<and> length (entry_questions (payload_topics b ! i)) =
                    (if 0 \<le> n then min (nat n) (length (as_pool d))
                     else length (as_pool d) - nat (- n))
                \<and> mset sel \<subseteq># mset (as_pool d)
                \<and> list_all2 (\<lambda>q pq. \<exists>m. tag_question (ts ! i) q = Inr m \<and> pq = public_question m)
                     sel (entry_questions (payload_topics b ! i))
                \<and> (\<forall>pq\<in>set (entry_questions (payload_topics b ! i)).
                      get_prop pq ''topic'' = Inr (ts ! i)))"
proof -
  let ?t0 = "\<lparr>testId = tid, userId = uid, startTime = start_iso,
              duration = subdoc_get cfg ''duration'', topics = [], totalQuestions = 0\<rparr>"
  from assms(3) have "\<forall>j<length ts. \<exists>url d m. topic_url (ts ! j) = Inr url
            \<and> fetch (0 + j) url = Inr d
            \<and> (\<forall>q\<in>set (as_pool d). q \<noteq> JNull \<and> q \<noteq> JUndefined)
            \<and> slice_end S (JNum n) (length (as_pool d)) = Inr m"
    by (simp add: slice_end_JNum)
  from fetch_topics_total [OF this] obtain t where
    t: "fetch_topics S rnd fetch (JNum n) ts 0 0 ?t0 = Inr t" by blast
  let ?b = "session_payload (tid @ ''-'' @ uid @ ''-'' @ number_to_string now_ms) t"
  from t assms(1,2) have r: "assemble_session S rnd fetch start_iso now_ms uid tid cfg = Response 200 ?b"
    by (simp add: assemble_session_def)
  from fetch_topics_Inr [OF t] obtain es where
    es: "topics t = es" "length es = length ts"
    and sel: "\<forall>j<length ts. \<exists>url d kj kj'. topic_url (ts ! j) = Inr url \<and> fetch j url = Inr d
                 \<and> select_questions S rnd kj (JNum n) (ts ! j) d = (Inr (questions (es ! j)), kj')"
    by auto
  have "\<forall>i<length ts. \<exists>url d sel.
                topic_url (ts ! i) = Inr url \<and> fetch i url = Inr d
                \<and> length (entry_questions (payload_topics ?b ! i)) =
                    (if 0 \<le> n then min (nat n) (length (as_pool d))
                     else length (as_pool d) - nat (- n))
                \<and> mset sel \<subseteq># mset (as_pool d)
                \<and> list_all2 (\<lambda>q pq. \<exists>m. tag_question (ts ! i) q = Inr m \<and> pq = public_question m)
                     sel (entry_questions (payload_topics ?b ! i))
                \<and> (\<forall>pq\<in>set (entry_questions (payload_topics ?b ! i)).
                      get_prop pq ''topic'' = Inr (ts ! i))"
  proof (intro allI impI)
    fix i assume i: "i < length ts"
    with sel obtain url d kj kj' where u: "topic_url (ts ! i) = Inr url"
      and d: "fetch i url = Inr d"
      and s: "select_questions S rnd kj (JNum n) (ts ! i) d = (Inr (questions (es ! i)), kj')"
      by blast
    from select_questions_Inr [OF s] obtain sel where
      m: "mset sel \<subseteq># mset (as_pool d)"
      and l: "slice_end S (JNum n) (length (as_pool d)) = Inr (length sel)"
      and a: "list_all2 (\<lambda>q m. tag_question (ts ! i) q = Inr m) sel (questions (es ! i))"
      by blast
    from l have l': "length sel = (if 0 \<le> n then min (nat n) (length (as_pool d))
                     else length (as_pool d) - nat (- n))"
      by (simp add: slice_end_JNum)
    from i es have e: "entry_questions (payload_topics ?b ! i) = map public_question (questions (es ! i))"
      by simp
    from a have 1: "length (questions (es ! i)) = length sel" by (simp add: list_all2_lengthD)
    from a have 2: "list_all2 (\<lambda>q pq. \<exists>m. tag_question (ts ! i) q = Inr m \<and> pq = public_question m)
                     sel (map public_question (questions (es ! i)))"
      by (simp add: list_all2_map2) (erule list_all2_mono, simp)
    have 3: "\<forall>pq\<in>set (map public_question (questions (es ! i))). get_prop pq ''topic'' = Inr (ts ! i)"
    proof
      fix pq assume "pq \<in> set (map public_question (questions (es ! i)))"
      then obtain m where mm: "m \<in> set (questions (es ! i))" and pq: "pq = public_question m" by auto
      from mm a obtain q where "tag_question (ts ! i) q = Inr m"
        by (auto simp: list_all2_conv_all_nth in_set_conv_nth)
      from tag_question_public [OF this] pq show "get_prop pq ''topic'' = Inr (ts ! i)"
        by (auto simp: get_def)
    qed
    from u d m l' 1 2 3 show "\<exists>url d sel.
                topic_url (ts ! i) = Inr url \<and> fetch i url = Inr d
                \<and> length (entry_questions (payload_topics ?b ! i)) =
                    (if 0 \<le> n then min (nat n) (length (as_pool d))
                     else length (as_pool d) - nat (- n))
                \<and> mset sel \<subseteq># mset (as_pool d)
                \<and> list_all2 (\<lambda>q pq. \<exists>m. tag_question (ts ! i) q = Inr m \<and> pq = public_question m)
                     sel (entry_questions (payload_topics ?b ! i))
                \<and> (\<forall>pq\<in>set (entry_questions (payload_topics ?b ! i)).
                      get_prop pq ''topic'' = Inr (ts ! i))"
      unfolding e by (intro exI [of _ url] exI [of _ d] exI [of _ sel]) simp
  qed
  with r es show ?thesis by (intro exI [of _ ?b]) simp
qed

lemma assemble_session_fetch_failure:
  assumes "js_iterate (subdoc_get cfg ''topics'') = Inr ts"
    and "i < length ts" and "topic_url (ts ! i) = Inr url" and "fetch i url = Inl e"
  shows "assemble_session S rnd fetch start_iso now_ms uid tid cfg
           = Response 500 (error_body ''Failed to start test'')"
proof -
  from assms(4) have "fetch (0 + i) url = Inl e" by simp
  from fetch_topics_fails [where fetch = fetch and i = 0 and j = i and ts = ts and e = e,
      OF assms(2,3) this]
  obtain e' where "fetch_topics S rnd fetch (subdoc_get cfg ''questionsPerTopic'') ts 0 0
        \<lparr>testId = tid, userId = uid, startTime = start_iso, duration = subdoc_get cfg ''duration'',
         topics = [], totalQuestions = 0\<rparr> = Inl e'"
    by blast
  with assms(1) show ?thesis
    by (simp add: assemble_session_def)
qed








section \<open>The configuration handler, step by step\<close>

lemma truthy_lookup:
  assumes "\<forall>v\<in>snd ` set al. truthy v"
  shows "map_of al k = None \<and> k \<notin> fst ` set al
         \<or> (\<exists>v. map_of al k = Some v \<and> truthy v \<and> k \<in> fst ` set al)"
  using assms by (induction al) auto

lemma truthy_AVAILABLE_TOPICS:
  "truthy (get AVAILABLE_TOPICS k) \<longleftrightarrow>
     k \<in> fst ` set AVAILABLE_TOPICS \<or> k \<in> fst ` set object_prototype"
proof -
  have a: "\<forall>v\<in>snd ` set AVAILABLE_TOPICS. truthy v" by (simp add: AVAILABLE_TOPICS_def)
  have b: "\<forall>v\<in>snd ` set object_prototype. truthy v" by (simp add: object_prototype_def)
  from truthy_lookup [OF a, of k] truthy_lookup [OF b, of k] show ?thesis
    by (auto simp: get_def)
qed

lemma validate_topics_Some:
  "validate_topics ts = Inr (Some k) \<Longrightarrow>
   \<exists>t\<in>set ts. to_string t = Inr k \<and> \<not> truthy (get AVAILABLE_TOPICS k)"
  by (induction ts) (auto split: if_splits sum.splits)

lemma validate_topics_Inl:
  "validate_topics ts = Inl e \<Longrightarrow> \<exists>t\<in>set ts. to_string t = Inl e"
  by (induction ts) (auto split: if_splits sum.splits)

lemma validate_topics_None:
  "validate_topics ts = Inr None \<Longrightarrow>
   \<forall>t\<in>set ts. \<exists>k. to_string t = Inr k \<and> truthy (get AVAILABLE_TOPICS k)"
  by (induction ts) (auto split: if_splits sum.splits)

lemma createTestConfig_rejects_unknown_name:
  assumes "truthy (get req_body ''testId'')" and "truthy (get req_body ''name'')"
    and "truthy (get req_body ''questionsPerTopic'')"
    and "get req_body ''topics'' = JArr ts"
    and "\<forall>t\<in>set ts. \<exists>k. to_string t = Inr k"
    and "t \<in> set ts" and "to_string t = Inr k"
    and "k \<notin> fst ` set AVAILABLE_TOPICS" and "k \<notin> fst ` set object_prototype"
  shows "\<exists>k'. k' \<notin> fst ` set AVAILABLE_TOPICS
           \<and> createTestConfig findOneAndUpdate now_iso uid jobs req_body
               = (Response 400 (error_body (''Invalid topic: '' @ k')), jobs)"
proof (cases "validate_topics ts")
  case (Inl e)
  from validate_topics_Inl [OF this] assms(5) show ?thesis by auto
next
  case (Inr r)
  show ?thesis
  proof (cases r)
    case None
    with Inr validate_topics_None [of ts] assms(6) obtain k0 where
      "to_string t = Inr k0" and "truthy (get AVAILABLE_TOPICS k0)" by blast
    with assms(7-9) have False by (simp add: truthy_AVAILABLE_TOPICS)
    then show ?thesis ..
  next
    case (Some k')
    with Inr validate_topics_Some [of ts k'] have "k' \<notin> fst ` set AVAILABLE_TOPICS"
      by (auto simp: truthy_AVAILABLE_TOPICS)
    moreover from assms(1-4) Inr Some
    have "createTestConfig findOneAndUpdate now_iso uid jobs req_body
            = (Response 400 (error_body (''Invalid topic: '' @ k')), jobs)"
      by (simp add: createTestConfig_def)
    ultimately show ?thesis by blast
  qed
qed

lemma createTestConfig_200:
  assumes "createTestConfig findOneAndUpdate now_iso uid jobs req_body = (Response 200 b, jobs')"
  shows "b = JObj (make_test_config now_iso uid req_body)
         \<and> findOneAndUpdate uid (make_test_config now_iso uid req_body) jobs = Inr jobs'"
  using assms
  by (auto simp: createTestConfig_def error_body_def Let_def
      split: if_splits sum.splits option.splits)

lemma get_make_test_config:
  "get (make_test_config now_iso uid req_body) ''duration''
     = js_or (get req_body ''duration'') (JNum 45)"
  "get (make_test_config now_iso uid req_body) ''passingScore''
     = js_or (get req_body ''passingScore'') (JNum 60)"
  "get (make_test_config now_iso uid req_body) ''isActive''
     = JBool (get req_body ''isActive'' \<noteq> JBool False)"
  "get (make_test_config now_iso uid req_body) ''testId'' = get req_body ''testId''"
  "get (make_test_config now_iso uid req_body) ''name'' = get req_body ''name''"
  "get (make_test_config now_iso uid req_body) ''description'' = get req_body ''description''"
  "get (make_test_config now_iso uid req_body) ''topics'' = get req_body ''topics''"
  "get (make_test_config now_iso uid req_body) ''questionsPerTopic''
     = get req_body ''questionsPerTopic''"
  by (simp_all add: make_test_config_def get_def [of "_ # _"])

lemma push_first_none:
  "\<forall>j\<in>set jobs. company j \<noteq> uid \<Longrightarrow> push_first uid q jobs = jobs"
  by (induction jobs) auto

lemma push_first_first:
  "\<forall>j'\<in>set pre. company j' \<noteq> uid \<Longrightarrow> company j = uid \<Longrightarrow>
   push_first uid q (pre @ j # post) = pre @ j\<lparr>quests := quests j @ [q]\<rparr> # post"
  by (induction pre) auto

lemma cast_paths_keys:
  "cast_paths cast sch ob = Inr kvs \<Longrightarrow> fst ` set kvs \<subseteq> fst ` set sch"
proof (induction sch arbitrary: kvs)
  case Nil
  then show ?case by simp
next
  case (Cons a sch)
  obtain p ty where a: "a = (p, ty)" by (cases a)
  from Cons.prems obtain kvs0 where r: "cast_paths cast sch ob = Inr kvs0"
    by (auto simp: a split: sum.splits)
  from Cons.IH [OF r] have "fst ` set kvs0 \<subseteq> fst ` set sch" .
  moreover from Cons.prems r have "fst ` set kvs \<subseteq> insert p (fst ` set kvs0)"
    by (auto simp: a split: sum.splits option.splits if_splits)
  ultimately have "fst ` set kvs \<subseteq> insert p (fst ` set sch)" by blast
  then show ?case by (simp add: a)
qed

lemma cast_quest_drops:
  assumes "cast_quest cast new_id ob = Inr q"
    and "k \<in> {''testId'', ''company'', ''name'', ''isActive'', ''createdAt''}"
  shows "map_of q k = None"
proof -
  from assms(1) obtain kvs where c: "cast_paths cast quest_schema ob = Inr kvs"
    and q: "q = kvs @ [(''_id'', JStr new_id)]"
    by (auto simp: cast_quest_def split: sum.splits)
  from assms(2) have "k \<notin> fst ` set quest_schema" "k \<noteq> ''_id''"
    by (auto simp: quest_schema_def)
  with cast_paths_keys [OF c] have "k \<notin> fst ` set q" by (auto simp: q)
  then show ?thesis by (simp add: map_of_eq_None_iff)
qed

lemma mongoose_push_Inr:
  assumes "mongoose_push cast new_id db_ok uid cfg jobs = Inr jobs'"
  shows "\<exists>q. cast_quest cast new_id cfg = Inr q \<and> jobs' = push_first uid q jobs"
  using assms by (auto simp: mongoose_push_def split: sum.splits if_splits)

lemma request_with_created:
  "createTestConfig example_push ''2024-05-01'' ''u1'' []
        (request_with [(''duration'', JNum 30), (''isActive'', JBool False)])
     = (Response 200 (JObj (make_test_config ''2024-05-01'' ''u1''
          (request_with [(''duration'', JNum 30), (''isActive'', JBool False)]))), [])"
  by code_simp

lemma request_with_fields:
  "get (request_with [(''duration'', JNum 30), (''isActive'', JBool False)]) ''duration'' = JNum 30"
  "map_of (request_with [(''duration'', JNum 30), (''isActive'', JBool False)]) ''passingScore'' = None"
  "get (request_with [(''duration'', JNum 30), (''isActive'', JBool False)]) ''isActive'' = JBool False"
  by code_simp+

section \<open>The concrete requests\<close>

lemma example_created:
  "createTestConfig example_push ''2024-05-01'' ''u1'' [example_job]
       (example_request (JArr [JStr ''Age'']) (JNum 5))
     = (Response 200 (JObj (example_config (JArr [JStr ''Age'']) (JNum 5))),
        created_jobs (JArr [JStr ''Age'']) (JNum 5))"
  "createTestConfig example_push ''2024-05-01'' ''u1'' [example_job]
       (example_request two_topics (JNum 2))
     = (Response 200 (JObj (example_config two_topics (JNum 2))),
        created_jobs two_topics (JNum 2))"
  "createTestConfig example_push ''2024-05-01'' ''u1'' [example_job]
       (example_request (JArr [JStr ''constructor'']) (JNum 2))
     = (Response 200 (JObj (example_config (JArr [JStr ''constructor'']) (JNum 2))),
        created_jobs (JArr [JStr ''constructor'']) (JNum 2))"
  by code_simp+



lemma raw_found:
  "mongoose_findOne True strictQuery ''t1'' raw_jobs = Inr (Some (hd raw_jobs))"
  by (cases strictQuery) (simp_all add: mongoose_findOne_def raw_jobs_def stored_matches_def)


section \<open>Properties of the session handler\<close>





text \<open>
  C3, with a stored quest that shows the defect. Whatever the collection, the test id
  and the answer of the query, the response is one of the two 404 answers or the 500:
  the handler never goes on to assemble a session. In particular, for a collection whose
  quest holds the test id \<^verbatim>\<open>t1\<close> with \<^verbatim>\<open>isActive\<close> and \<^verbatim>\<open>enabled\<close> both true, and
  which the query finds, starting \<^verbatim>\<open>t1\<close> is answered 404.
\<close>

theorem startSession_stored_enabled_test_not_found:
  "(startSession S rnd fetch findOne start_iso now_ms uid jobs tid
      = Response 404 (error_body ''Test not found'')
    \<or> startSession S rnd fetch findOne start_iso now_ms uid jobs tid
      = Response 404 (error_body ''Test not found or inactive'')
    \<or> startSession S rnd fetch findOne start_iso now_ms uid jobs tid
      = Response 500 (error_body ''Failed to start test''))
   \<and> list_ex (\<lambda>q. map_of q ''testId'' = Some (JStr ''t1'')
                  \<and> map_of q ''isActive'' = Some (JBool True)
                  \<and> map_of q ''enabled'' = Some (JBool True)) (quests (hd raw_jobs))
   \<and> mongoose_findOne True strictQuery ''t1'' raw_jobs = Inr (Some (hd raw_jobs))
   \<and> startSession S rnd fetch (mongoose_findOne True strictQuery) start_iso now_ms uid
        raw_jobs ''t1''
      = Response 404 (error_body ''Test not found or inactive'')"
proof -
  have "list_ex (\<lambda>q. map_of q ''testId'' = Some (JStr ''t1'')
                  \<and> map_of q ''isActive'' = Some (JBool True)
                  \<and> map_of q ''enabled'' = Some (JBool True)) (quests (hd raw_jobs))"
    by (simp add: raw_jobs_def)
  with startSession_never_assembles [of S rnd fetch findOne start_iso now_ms uid jobs tid]
    raw_found [of strictQuery]
  show ?thesis by (simp add: startSession_cases)
qed

theorem startSession_stored_enabled_test_not_found_witness:
  "status (startSession no_numeric_strings example_rnd example_fetch
      (mongoose_findOne True False) ''2024-05-02'' 1714 ''u9'' raw_jobs ''t1'') = 404"
  using startSession_stored_enabled_test_not_found
          [where S = no_numeric_strings and rnd = example_rnd and fetch = example_fetch
             and strictQuery = False and start_iso = "''2024-05-02''" and now_ms = 1714
             and uid = "''u9''"]
  by simp





section \<open>Properties of the login handler\<close>

text \<open>
  C9. An unknown email and a wrong password of a known email both give the response
  401 with the body \<^verbatim>\<open>{error: 'Invalid credentials'}\<close>: the two responses are the same
  value.
\<close>

theorem login_unauthorized_same_body:
  "(findOne (get req_body ''email'') = Inr None \<longrightarrow>
      login findOne comparePassword generateToken req_body
        = Response 401 (error_body ''Invalid credentials''))
   \<and> (findOne (get req_body ''email'') = Inr (Some u)
        \<and> comparePassword u (get req_body ''password'') = Inr False \<longrightarrow>
      login findOne comparePassword generateToken req_body
        = Response 401 (error_body ''Invalid credentials''))"
  by (simp add: login_def)

theorem login_unauthorized_same_body_witness:
  "login (\<lambda>e. Inr None) (\<lambda>u p. Inr False) (\<lambda>u. Inr ''tok'')
      [(''email'', JStr ''nobody@x.org''), (''password'', JStr ''pw'')]
     = Response 401 (error_body ''Invalid credentials'')
   \<and> login (\<lambda>e. Inr (Some \<lparr>user_id = ''u1'', email = e, user_name = JStr ''Ann'',
                              role = JStr ''company'', companyName = JStr ''Acme''\<rparr>))
        (\<lambda>u p. Inr False) (\<lambda>u. Inr ''tok'')
        [(''email'', JStr ''ann@x.org''), (''password'', JStr ''wrong'')]
     = Response 401 (error_body ''Invalid credentials'')"
  using login_unauthorized_same_body
          [where findOne = "\<lambda>e. Inr None" and comparePassword = "\<lambda>u p. Inr False"
             and generateToken = "\<lambda>u. Inr ''tok''"
             and req_body = "[(''email'', JStr ''nobody@x.org''), (''password'', JStr ''pw'')]"]
        login_unauthorized_same_body
          [where findOne = "\<lambda>e. Inr (Some \<lparr>user_id = ''u1'', email = e,
                    user_name = JStr ''Ann'', role = JStr ''company'',
                    companyName = JStr ''Acme''\<rparr>)"
             and comparePassword = "\<lambda>u p. Inr False"
             and generateToken = "\<lambda>u. Inr ''tok''"
             and req_body = "[(''email'', JStr ''ann@x.org''), (''password'', JStr ''wrong'')]"
             and u = "\<lparr>user_id = ''u1'', email = JStr ''ann@x.org'', user_name = JStr ''Ann'',
                    role = JStr ''company'', companyName = JStr ''Acme''\<rparr>"]
  by (simp add: get_def)

section \<open>Properties of the test configuration handler\<close>

text \<open>
  C6, at the request that shows the defect. The topic \<^verbatim>\<open>constructor\<close> is none of the
  eight keys of \<^verbatim>\<open>AVAILABLE_TOPICS\<close>, yet the request is answered with 200 and a quest
  with that topic is appended to the job of the company: line 175 reads
  \<^verbatim>\<open>AVAILABLE_TOPICS[topic]\<close>, which for this name is the function every object
  inherits, and that is truthy. (For a topic that is neither a key nor an inherited
  name the handler does answer 400 and names it; see
  \<open>createTestConfig_rejects_unknown_name\<close>.)
\<close>

theorem createTestConfig_accepts_inherited_name:
  "''constructor'' \<notin> fst ` set AVAILABLE_TOPICS
   \<and> createTestConfig example_push ''2024-05-01'' ''u1'' [example_job]
        (example_request (JArr [JStr ''constructor'']) (JNum 2))
     = (Response 200 (JObj (example_config (JArr [JStr ''constructor'']) (JNum 2))),
        created_jobs (JArr [JStr ''constructor'']) (JNum 2))
   \<and> get (example_config (JArr [JStr ''constructor'']) (JNum 2)) ''topics''
     = JArr [JStr ''constructor'']
   \<and> map_of (stored_quest (JArr [JStr ''constructor'']) (JNum 2)) ''topics''
     = Some (JArr [JStr ''constructor''])"
proof -
  have "''constructor'' \<notin> fst ` set AVAILABLE_TOPICS" by (simp add: AVAILABLE_TOPICS_def)
  moreover have "get (example_config (JArr [JStr ''constructor'']) (JNum 2)) ''topics''
     = JArr [JStr ''constructor'']" by code_simp
  moreover have "map_of (stored_quest (JArr [JStr ''constructor'']) (JNum 2)) ''topics''
     = Some (JArr [JStr ''constructor''])" by (simp add: stored_quest_def)
  ultimately show ?thesis using example_created(3) by simp
qed

theorem createTestConfig_accepts_inherited_name_witness:
  "status (fst (createTestConfig example_push ''2024-05-01'' ''u1'' [example_job]
      (example_request (JArr [JStr ''constructor'']) (JNum 2)))) = 200
   \<and> quests (hd (snd (createTestConfig example_push ''2024-05-01'' ''u1'' [example_job]
      (example_request (JArr [JStr ''constructor'']) (JNum 2)))))
     = [stored_quest (JArr [JStr ''constructor'']) (JNum 2)]"
  using createTestConfig_accepts_inherited_name
  by (simp add: created_jobs_def)

text \<open>
  C7, as the code has it. In the configuration of a successful response the duration is
  the requested one when that is truthy and 45 otherwise (absent, but also \<^verbatim>\<open>null\<close>,
  \<^verbatim>\<open>false\<close>, 0 and the empty string); the passing score is the requested one when that
  is truthy and 60 when it is absent, \<^verbatim>\<open>null\<close>, \<^verbatim>\<open>false\<close> or the empty string;
  \<^verbatim>\<open>isActive\<close> is \<^verbatim>\<open>true\<close> unless the request has the boolean \<^verbatim>\<open>false\<close>; the other
  fields are those of the request.
\<close>

theorem createTestConfig_defaults:
  assumes "createTestConfig findOneAndUpdate now_iso uid jobs req_body
             = (Response 200 (JObj cfg), jobs')"
  shows "get cfg ''duration''
           = (if truthy (get req_body ''duration'') then get req_body ''duration'' else JNum 45)
     \<and> (map_of req_body ''duration'' = None \<longrightarrow> get cfg ''duration'' = JNum 45)
     \<and> (truthy (get req_body ''passingScore'') \<longrightarrow>
          get cfg ''passingScore'' = get req_body ''passingScore'')
     \<and> (map_of req_body ''passingScore'' = None
          \<or> get req_body ''passingScore'' \<in> {JUndefined, JNull, JBool False, JStr []} \<longrightarrow>
          get cfg ''passingScore'' = JNum 60)
     \<and> get cfg ''isActive'' = JBool (get req_body ''isActive'' \<noteq> JBool False)
     \<and> get cfg ''testId'' = get req_body ''testId''
     \<and> get cfg ''name'' = get req_body ''name''
     \<and> get cfg ''description'' = get req_body ''description''
     \<and> get cfg ''topics'' = get req_body ''topics''
     \<and> get cfg ''questionsPerTopic'' = get req_body ''questionsPerTopic''"
proof -
  from createTestConfig_200 [OF assms] have c: "cfg = make_test_config now_iso uid req_body"
    by simp
  have d: "map_of req_body ''duration'' = None \<Longrightarrow> get req_body ''duration'' = JUndefined"
    by (simp add: get_def object_prototype_def)
  have p: "map_of req_body ''passingScore'' = None \<Longrightarrow> get req_body ''passingScore'' = JUndefined"
    by (simp add: get_def object_prototype_def)
  show ?thesis
    unfolding c get_make_test_config using d p by (auto simp: js_or_def)
qed

theorem createTestConfig_defaults_witness:
  "createTestConfig example_push ''2024-05-01'' ''u1'' []
        (request_with [(''duration'', JNum 30), (''isActive'', JBool False)])
     = (Response 200 (JObj (make_test_config ''2024-05-01'' ''u1''
          (request_with [(''duration'', JNum 30), (''isActive'', JBool False)]))), [])
   \<and> get (make_test_config ''2024-05-01'' ''u1''
          (request_with [(''duration'', JNum 30), (''isActive'', JBool False)])) ''duration''
     = JNum 30
   \<and> get (make_test_config ''2024-05-01'' ''u1''
          (request_with [(''duration'', JNum 30), (''isActive'', JBool False)])) ''passingScore''
     = JNum 60
   \<and> get (make_test_config ''2024-05-01'' ''u1''
          (request_with [(''duration'', JNum 30), (''isActive'', JBool False)])) ''isActive''
     = JBool False"
  using createTestConfig_defaults [OF request_with_created] request_with_created
    request_with_fields
  by simp

text \<open>
  The claim as stated, with 45 exactly when the duration is absent, fails for a request
  whose duration is present and 0.
\<close>

theorem createTestConfig_duration_zero_counterexample:
  "map_of (request_with [(''duration'', JNum 0), (''passingScore'', JNum 70)]) ''duration''
     = Some (JNum 0)
   \<and> createTestConfig example_push ''2024-05-01'' ''u1'' []
        (request_with [(''duration'', JNum 0), (''passingScore'', JNum 70)])
     = (Response 200 (JObj (make_test_config ''2024-05-01'' ''u1''
          (request_with [(''duration'', JNum 0), (''passingScore'', JNum 70)]))), [])
   \<and> get (make_test_config ''2024-05-01'' ''u1''
          (request_with [(''duration'', JNum 0), (''passingScore'', JNum 70)])) ''duration''
     = JNum 45"
  by code_simp

text \<open>
  C8, at a request that shows the defect. The company's request is answered with 200
  and the configuration, which has the test id; what is appended to the quests of its
  job is the configuration cast to the quest schema, which has none. In general,
  whatever Mongoose's cast does to the values, the quest that a successful request
  appends has no \<^verbatim>\<open>testId\<close>, \<^verbatim>\<open>company\<close>, \<^verbatim>\<open>name\<close>, \<^verbatim>\<open>isActive\<close> or \<^verbatim>\<open>createdAt\<close>.
  (That only the first job of the actor changes, and nothing when the actor has no job,
  is \<open>push_first_first\<close> and \<open>push_first_none\<close>.)
\<close>

theorem createTestConfig_stores_cast_quest:
  "createTestConfig example_push ''2024-05-01'' ''u1'' [example_job]
       (example_request two_topics (JNum 2))
     = (Response 200 (JObj (example_config two_topics (JNum 2))),
        [example_job\<lparr>quests := [stored_quest two_topics (JNum 2)]\<rparr>])
   \<and> get (example_config two_topics (JNum 2)) ''testId'' = JStr ''t1''
   \<and> map_of (stored_quest two_topics (JNum 2)) ''testId'' = None
   \<and> stored_quest two_topics (JNum 2) \<noteq> example_config two_topics (JNum 2)
   \<and> (createTestConfig (mongoose_push cast new_id db_ok) now_iso uid jobs req_body
         = (Response 200 b, jobs') \<longrightarrow>
       (\<exists>q. jobs' = push_first uid q jobs
          \<and> map_of q ''testId'' = None \<and> map_of q ''company'' = None
          \<and> map_of q ''name'' = None \<and> map_of q ''isActive'' = None
          \<and> map_of q ''createdAt'' = None))"
proof -
  have 1: "get (example_config two_topics (JNum 2)) ''testId'' = JStr ''t1''" by code_simp
  have 2: "map_of (stored_quest two_topics (JNum 2)) ''testId'' = None"
    by (simp add: stored_quest_def)
  have 3: "stored_quest two_topics (JNum 2) \<noteq> example_config two_topics (JNum 2)"
    by (simp add: stored_quest_def example_config_def make_test_config_def)
  have 4: "createTestConfig (mongoose_push cast new_id db_ok) now_iso uid jobs req_body
         = (Response 200 b, jobs') \<longrightarrow>
       (\<exists>q. jobs' = push_first uid q jobs
          \<and> map_of q ''testId'' = None \<and> map_of q ''company'' = None
          \<and> map_of q ''name'' = None \<and> map_of q ''isActive'' = None
          \<and> map_of q ''createdAt'' = None)"
  proof
    assume "createTestConfig (mongoose_push cast new_id db_ok) now_iso uid jobs req_body
         = (Response 200 b, jobs')"
    from createTestConfig_200 [OF this]
    have "mongoose_push cast new_id db_ok uid (make_test_config now_iso uid req_body) jobs
            = Inr jobs'" by simp
    from mongoose_push_Inr [OF this] obtain q where
      c: "cast_quest cast new_id (make_test_config now_iso uid req_body) = Inr q"
      and j: "jobs' = push_first uid q jobs" by blast
    from cast_quest_drops [OF c] have "map_of q ''testId'' = None" "map_of q ''company'' = None"
      "map_of q ''name'' = None" "map_of q ''isActive'' = None" "map_of q ''createdAt'' = None"
      by simp_all
    with j show "\<exists>q. jobs' = push_first uid q jobs
          \<and> map_of q ''testId'' = None \<and> map_of q ''company'' = None
          \<and> map_of q ''name'' = None \<and> map_of q ''isActive'' = None
          \<and> map_of q ''createdAt'' = None" by blast
  qed
  from example_created(2) 1 2 3 4 show ?thesis by (simp add: created_jobs_def)
qed

theorem createTestConfig_stores_cast_quest_witness:
  "createTestConfig (mongoose_push example_cast ''q1'' True) ''2024-05-01'' ''u1'' [example_job]
       (example_request two_topics (JNum 2))
     = (Response 200 (JObj (example_config two_topics (JNum 2))),
        [example_job\<lparr>quests := [stored_quest two_topics (JNum 2)]\<rparr>])
   \<and> (\<exists>q. [example_job\<lparr>quests := [stored_quest two_topics (JNum 2)]\<rparr>]
            = push_first ''u1'' q [example_job]
          \<and> map_of q ''testId'' = None)"
proof -
  note t = createTestConfig_stores_cast_quest [where cast = example_cast and new_id = "''q1''"
      and db_ok = True and now_iso = "''2024-05-01''" and uid = "''u1''" and jobs = "[example_job]"
      and req_body = "example_request two_topics (JNum 2)"
      and b = "JObj (example_config two_topics (JNum 2))"
      and jobs' = "[example_job\<lparr>quests := [stored_quest two_topics (JNum 2)]\<rparr>]"]
  from t have c: "createTestConfig (mongoose_push example_cast ''q1'' True) ''2024-05-01'' ''u1''
       [example_job] (example_request two_topics (JNum 2))
     = (Response 200 (JObj (example_config two_topics (JNum 2))),
        [example_job\<lparr>quests := [stored_quest two_topics (JNum 2)]\<rparr>])"
    by (simp add: example_push_def)
  with t have "\<exists>q. [example_job\<lparr>quests := [stored_quest two_topics (JNum 2)]\<rparr>]
            = push_first ''u1'' q [example_job]
          \<and> map_of q ''testId'' = None" by blast
  with c show ?thesis by blast
qed

text \<open>
  C10. A request whose \<^verbatim>\<open>questionsPerTopic\<close> is the number 0 is answered with 400
  \<^verbatim>\<open>Missing required fields\<close> and writes nothing, whatever its other fields are; the
  same holds when any of \<^verbatim>\<open>testId\<close>, \<^verbatim>\<open>name\<close>, \<^verbatim>\<open>topics\<close>, \<^verbatim>\<open>questionsPerTopic\<close> is
  falsy, and the falsy values are \<^verbatim>\<open>undefined\<close>, \<^verbatim>\<open>null\<close>, \<^verbatim>\<open>false\<close>, 0 and the empty
  string.
\<close>

theorem createTestConfig_falsy_field_is_missing:
  "(get req_body ''questionsPerTopic'' = JNum 0 \<longrightarrow>
      createTestConfig findOneAndUpdate now_iso uid jobs req_body
        = (Response 400 (error_body ''Missing required fields''), jobs))
   \<and> (f \<in> {''testId'', ''name'', ''topics'', ''questionsPerTopic''}
        \<and> \<not> truthy (get req_body f) \<longrightarrow>
      createTestConfig findOneAndUpdate now_iso uid jobs req_body
        = (Response 400 (error_body ''Missing required fields''), jobs))
   \<and> (\<not> truthy v \<longleftrightarrow> v \<in> {JUndefined, JNull, JBool False, JNum 0, JStr []})"
proof -
  have "\<not> truthy v \<longleftrightarrow> v \<in> {JUndefined, JNull, JBool False, JNum 0, JStr []}"
    by (cases v) auto
  then show ?thesis
    by (auto simp: createTestConfig_def)
qed

theorem createTestConfig_falsy_field_is_missing_witness:
  "get (example_request (JArr [JStr ''Age'']) (JNum 0)) ''questionsPerTopic'' = JNum 0
   \<and> createTestConfig example_push ''2024-05-01'' ''u1'' [example_job]
        (example_request (JArr [JStr ''Age'']) (JNum 0))
       = (Response 400 (error_body ''Missing required fields''), [example_job])
   \<and> \<not> truthy (get (example_request (JStr []) (JNum 2)) ''topics'')
   \<and> createTestConfig example_push ''2024-05-01'' ''u1'' [example_job]
        (example_request (JStr []) (JNum 2))
       = (Response 400 (error_body ''Missing required fields''), [example_job])"
  using createTestConfig_falsy_field_is_missing
          [where req_body = "example_request (JArr [JStr ''Age'']) (JNum 0)"
             and findOneAndUpdate = example_push
             and now_iso = "''2024-05-01''" and uid = "''u1''" and jobs = "[example_job]"]
        createTestConfig_falsy_field_is_missing
          [where req_body = "example_request (JStr []) (JNum 2)" and f = "''topics''"
             and findOneAndUpdate = example_push
             and now_iso = "''2024-05-01''" and uid = "''u1''" and jobs = "[example_job]"]
  by (simp add: get_def example_request_def)

end
